theory Spec2Isabelle
  imports Main "HOL-Library.Word"
begin

section \<open>JavaScript values seen by the error classifier\<close>

text \<open>
  \<^verbatim>\<open>formatMcpError(error: any)\<close> receives whatever a \<^verbatim>\<open>catch\<close> clause caught. The values
  modelled here are \<^verbatim>\<open>undefined\<close>, \<^verbatim>\<open>null\<close>, booleans, numbers, strings and objects with
  string-keyed data properties. The numbers are the integers from \<open>-2\<^sup>5\<^sup>3\<close> to
  \<open>2\<^sup>5\<^sup>3 - 1\<close>, held as 54-bit signed words: each is exactly a double, and
  \<^verbatim>\<open>Number.prototype.toString\<close> prints it as plain decimal digits. An object carries its prototype:
  \<^verbatim>\<open>Object.prototype\<close> (object literals, parsed JSON), \<^verbatim>\<open>Error.prototype\<close> (instances of
  \<^verbatim>\<open>Error\<close>) or none (\<^verbatim>\<open>Object.create(null)\<close>). Functions, symbols, arrays, accessors,
  proxies and all other numbers are outside the model; a cyclic object is represented by
  its unfolding, of which the classifier reads at most three levels.
\<close>

datatype proto = NullProto | ObjectProto | ErrorProto

datatype jsval =
    JUndefined
  | JNull
  | JBool bool
  | JNum "54 word"
  | JStr string
  | JObj proto "(string \<times> jsval) list"

text \<open>The four data properties the classifier reads.\<close>

datatype property = P_code | P_error | P_response | P_message

fun prop_name :: "property \<Rightarrow> string" where
  "prop_name P_code = ''code''"
| "prop_name P_error = ''error''"
| "prop_name P_response = ''response''"
| "prop_name P_message = ''message''"

text \<open>
  Of the four, only \<^verbatim>\<open>message\<close> is found on a built-in prototype:
  \<^verbatim>\<open>Error.prototype.message\<close> is the empty string.
\<close>

fun inherited :: "proto \<Rightarrow> property \<Rightarrow> jsval" where
  "inherited ErrorProto P_message = JStr []"
| "inherited _ _ = JUndefined"

text \<open>
  \<^verbatim>\<open>v?.p\<close>: \<^verbatim>\<open>undefined\<close> when \<^verbatim>\<open>v\<close> is \<^verbatim>\<open>undefined\<close> or \<^verbatim>\<open>null\<close>; otherwise the own property,
  then the prototype's. Booleans, numbers and strings have none of the four properties.
\<close>

fun opt_get :: "jsval \<Rightarrow> property \<Rightarrow> jsval" where
  "opt_get (JObj p ps) f = (case map_of ps (prop_name f) of Some v \<Rightarrow> v | None \<Rightarrow> inherited p f)"
| "opt_get _ f = JUndefined"

text \<open>Truthiness, as \<^verbatim>\<open>||\<close> and \<^verbatim>\<open>&&\<close> test it.\<close>

fun truthy :: "jsval \<Rightarrow> bool" where
  "truthy JUndefined = False"
| "truthy JNull = False"
| "truthy (JBool b) = b"
| "truthy (JNum n) = (n \<noteq> 0)"
| "truthy (JStr s) = (s \<noteq> [])"
| "truthy (JObj p ps) = True"

subsection \<open>Conversion to string\<close>

text \<open>
  The decimal digits of an integer, and with them \<^verbatim>\<open>Number.prototype.toString\<close> on the
  numbers of the model.
\<close>

definition digit_char :: "nat \<Rightarrow> char" where
  "digit_char d = ''0123456789'' ! d"

function string_of_nat :: "nat \<Rightarrow> string" where
  "string_of_nat n = (if n < 10 then [digit_char n] else string_of_nat (n div 10) @ [digit_char (n mod 10)])"
  by pat_completeness auto
termination
  by (relation "measure id") auto

declare string_of_nat.simps [simp del]

definition string_of_int :: "int \<Rightarrow> string" where
  "string_of_int i = (if i < 0 then CHR ''-'' # string_of_nat (nat (- i)) else string_of_nat (nat i))"

definition Number_toString :: "54 word \<Rightarrow> string" where
  "Number_toString n = string_of_int (sint n)"

text \<open>
  A \<^verbatim>\<open>TypeError\<close> raised by the engine. Its \<^verbatim>\<open>name\<close> lives on \<^verbatim>\<open>TypeError.prototype\<close>; it is
  listed with the object so that string conversion prints it. The message wording is V8's.
\<close>

definition TypeError :: "string \<Rightarrow> jsval" where
  "TypeError msg = JObj ErrorProto [(''name'', JStr ''TypeError''), (''message'', JStr msg)]"

text \<open>
  Own properties: whether the object has one of that name, and its value
  (\<^verbatim>\<open>undefined\<close> when it has none).
\<close>

definition has_own :: "(string \<times> jsval) list \<Rightarrow> string \<Rightarrow> bool" where
  "has_own ps k = (k \<in> set (map fst ps))"

definition own :: "(string \<times> jsval) list \<Rightarrow> string \<Rightarrow> jsval" where
  "own ps k = (case map_of ps k of None \<Rightarrow> JUndefined | Some v \<Rightarrow> v)"

text \<open>
  \<^verbatim>\<open>ToString(v)\<close>, the conversion a template literal and a computed property key apply.
  An object goes through \<^verbatim>\<open>toString\<close> and then \<^verbatim>\<open>valueOf\<close>: an own \<^verbatim>\<open>toString\<close> property is
  never callable in this model, \<^verbatim>\<open>Object.prototype.valueOf\<close> returns the object itself, so
  the conversion succeeds exactly when \<^verbatim>\<open>toString\<close> is inherited.
  \<^verbatim>\<open>Error.prototype.toString\<close> joins \<^verbatim>\<open>name\<close> (default \<^verbatim>\<open>Error\<close>) and \<^verbatim>\<open>message\<close> (default empty).
  \<open>Inl\<close> is the exception thrown.
\<close>

function ToString :: "jsval \<Rightarrow> jsval + string" where
  "ToString JUndefined = Inr ''undefined''"
| "ToString JNull = Inr ''null''"
| "ToString (JBool b) = Inr (if b then ''true'' else ''false'')"
| "ToString (JNum n) = Inr (Number_toString n)"
| "ToString (JStr s) = Inr s"
| "ToString (JObj p ps) =
     (if has_own ps ''toString'' \<or> p = NullProto
      then Inl (TypeError ''Cannot convert object to primitive value'')
      else if p = ObjectProto then Inr ''[object Object]''
      else
        (case (if own ps ''name'' = JUndefined then Inr ''Error'' else ToString (own ps ''name'')) of
           Inl e \<Rightarrow> Inl e
         | Inr name \<Rightarrow>
            (case (if own ps ''message'' = JUndefined then Inr [] else ToString (own ps ''message'')) of
               Inl e \<Rightarrow> Inl e
             | Inr msg \<Rightarrow>
                 Inr (if name = [] then msg else if msg = [] then name else name @ '': '' @ msg))))"
  by pat_completeness auto
termination
proof (relation "measure size")
  have own_size: "size (own ps k) < Suc (size_list (size_prod (\<lambda>_. 0) size) ps)"
    if "own ps k \<noteq> JUndefined" for ps k
    using that unfolding own_def by (induction ps) (auto split: if_splits)
  show "wf (measure size)"
    by simp
  show "(own ps ''name'', JObj p ps) \<in> measure size"
    if "own ps ''name'' \<noteq> JUndefined" for p ps
    using own_size [OF that] by simp
  show "(own ps ''message'', JObj p ps) \<in> measure size"
    if "own ps ''message'' \<noteq> JUndefined" for p ps x
    using own_size [OF that] by simp
qed

text \<open>
  The method call \<^verbatim>\<open>error?.toString()\<close>: \<^verbatim>\<open>undefined\<close> for \<^verbatim>\<open>undefined\<close> and \<^verbatim>\<open>null\<close>; the
  primitive's own \<^verbatim>\<open>toString\<close> for booleans, numbers and strings; for an object the
  \<^verbatim>\<open>toString\<close> it has or inherits, and a \<^verbatim>\<open>TypeError\<close> when that is not a function
  (the optional chain guards \<^verbatim>\<open>error\<close>, not the method).
\<close>

fun call_toString :: "jsval \<Rightarrow> jsval + jsval" where
  "call_toString JUndefined = Inr JUndefined"
| "call_toString JNull = Inr JUndefined"
| "call_toString (JObj p ps) =
     (if has_own ps ''toString'' \<or> p = NullProto
      then Inl (TypeError ''error?.toString is not a function'')
      else map_sum id JStr (ToString (JObj p ps)))"
| "call_toString v = map_sum id JStr (ToString v)"

section \<open>The error table and the classifier\<close>

definition AUTHENTICATION_ERROR :: "54 word" where "AUTHENTICATION_ERROR = - 32000"
definition INVALID_SESSION :: "54 word" where "INVALID_SESSION = - 32001"
definition METHOD_NOT_FOUND :: "54 word" where "METHOD_NOT_FOUND = - 32002"
definition INVALID_PARAMETERS :: "54 word" where "INVALID_PARAMETERS = - 32003"
definition INTERNAL_ERROR :: "54 word" where "INTERNAL_ERROR = - 32004"
definition PARSE_ERROR :: "54 word" where "PARSE_ERROR = - 32005"

record McpErrorInfo =
  code :: "54 word"
  name :: string
  description :: string
  commonCause :: string
  howToHandle :: string

text \<open>
  \<^verbatim>\<open>MCP_ERROR_INFO: Record<number, McpErrorInfo>\<close> is an object literal with computed keys:
  each key is the decimal string of its code.
\<close>

definition MCP_ERROR_INFO :: "(string \<times> McpErrorInfo) list" where
  \<open>MCP_ERROR_INFO =
    [(Number_toString AUTHENTICATION_ERROR,
      \<lparr>code = - 32000,
       name = ''Authentication Error'',
       description = ''Missing or invalid authentication token'',
       commonCause = ''The API key or authentication credentials are missing or invalid'',
       howToHandle = ''Check your MCP_API_KEY environment variable or provide a valid API key when connecting''\<rparr>),
     (Number_toString INVALID_SESSION,
      \<lparr>code = - 32001,
       name = ''Invalid Session'',
       description = ''Session ID not found or expired'',
       commonCause = ''The session has expired or was not properly initialized'',
       howToHandle = ''Disconnect and reconnect to reinitialize the session''\<rparr>),
     (Number_toString METHOD_NOT_FOUND,
      \<lparr>code = - 32002,
       name = ''Method Not Found'',
       description = ''The requested method does not exist'',
       commonCause = ''Called a tool or method that is not available on this server'',
       howToHandle = ''Use "tools" command to list available tools and verify the method name''\<rparr>),
     (Number_toString INVALID_PARAMETERS,
      \<lparr>code = - 32003,
       name = ''Invalid Parameters'',
       description = ''Missing or invalid parameters'',
       commonCause = ''The parameters provided do not match the expected schema'',
       howToHandle = ''Use "tool <toolName>" to see the expected parameters schema and validate your input''\<rparr>),
     (Number_toString INTERNAL_ERROR,
      \<lparr>code = - 32004,
       name = ''Internal Error'',
       description = ''Server-side exception occurred'',
       commonCause = ''An unexpected error occurred on the server'',
       howToHandle = ''Check server logs for details. This may be a bug in the MCP server implementation''\<rparr>),
     (Number_toString PARSE_ERROR,
      \<lparr>code = - 32005,
       name = ''Parse Error'',
       description = ''Invalid JSON format'',
       commonCause = ''The request contained malformed JSON'',
       howToHandle = ''Verify your JSON syntax. Use proper escaping and formatting''\<rparr>)]\<close>

text \<open>
  The table is an ordinary object, so \<^verbatim>\<open>MCP_ERROR_INFO[key]\<close> also finds the members of
  \<^verbatim>\<open>Object.prototype\<close>. Each is listed with the \<^verbatim>\<open>name\<close> property of the value found: the
  function's name, or nothing for \<^verbatim>\<open>__proto__\<close>, which yields \<^verbatim>\<open>Object.prototype\<close> itself.
  None of these values has a \<^verbatim>\<open>code\<close>, \<^verbatim>\<open>description\<close>, \<^verbatim>\<open>commonCause\<close> or \<^verbatim>\<open>howToHandle\<close>.
\<close>

definition Object_prototype_members :: "(string \<times> string option) list" where
  "Object_prototype_members =
    [(''constructor'', Some ''Object''),
     (''__defineGetter__'', Some ''__defineGetter__''),
     (''__defineSetter__'', Some ''__defineSetter__''),
     (''hasOwnProperty'', Some ''hasOwnProperty''),
     (''__lookupGetter__'', Some ''__lookupGetter__''),
     (''__lookupSetter__'', Some ''__lookupSetter__''),
     (''isPrototypeOf'', Some ''isPrototypeOf''),
     (''propertyIsEnumerable'', Some ''propertyIsEnumerable''),
     (''toString'', Some ''toString''),
     (''valueOf'', Some ''valueOf''),
     (''__proto__'', None),
     (''toLocaleString'', Some ''toLocaleString'')]"

datatype table_entry = Known McpErrorInfo | Builtin "string option" | Missing

definition table_get :: "string \<Rightarrow> table_entry" where
  "table_get key =
     (case map_of MCP_ERROR_INFO key of
        Some info \<Rightarrow> Known info
      | None \<Rightarrow> (case map_of Object_prototype_members key of
                   Some n \<Rightarrow> Builtin n
                 | None \<Rightarrow> Missing))"

text \<open>
  The code: the first of \<^verbatim>\<open>error?.code\<close>, \<^verbatim>\<open>error?.error?.code\<close> and
  \<^verbatim>\<open>error?.response?.error?.code\<close> that is not \<^verbatim>\<open>undefined\<close>; \<^verbatim>\<open>errorCode\<close> stays
  \<^verbatim>\<open>undefined\<close> when none is.
\<close>

definition errorCode_of :: "jsval \<Rightarrow> jsval" where
  "errorCode_of error =
     (if opt_get error P_code \<noteq> JUndefined then opt_get error P_code
      else if opt_get (opt_get error P_error) P_code \<noteq> JUndefined
        then opt_get (opt_get error P_error) P_code
      else if opt_get (opt_get (opt_get error P_response) P_error) P_code \<noteq> JUndefined
        then opt_get (opt_get (opt_get error P_response) P_error) P_code
      else JUndefined)"

text \<open>
  \<^verbatim>\<open>error?.message || error?.error?.message || error?.toString() || 'Unknown error'\<close>:
  each operand is evaluated only when those before it are falsy.
\<close>

definition originalMessage :: "jsval \<Rightarrow> jsval + jsval" where
  "originalMessage error =
     (if truthy (opt_get error P_message) then Inr (opt_get error P_message)
      else if truthy (opt_get (opt_get error P_error) P_message)
        then Inr (opt_get (opt_get error P_error) P_message)
      else case call_toString error of
             Inl e \<Rightarrow> Inl e
           | Inr s \<Rightarrow> if truthy s then Inr s else Inr (JStr ''Unknown error''))"

text \<open>
  The heading and the five detail lines printed for a table entry. Strings are held as
  UTF-8; the ten bytes of the heading are the four characters that line 97 of
  \<^verbatim>\<open>mcp-client-repl.ts\<close> has between the line break and \<^verbatim>\<open> MCP Error Details:\<close>.
\<close>

definition details_heading :: string where
  "details_heading =
     ''\<newline>''
     @ [CHR 0xC3, CHR 0xB0, CHR 0xC5, CHR 0xB8, CHR 0xE2, CHR 0x80, CHR 0x9C, CHR 0xE2, CHR 0x80, CHR 0xB9]
     @ '' MCP Error Details:\<newline>''"

definition details :: "string \<Rightarrow> string \<Rightarrow> string \<Rightarrow> string \<Rightarrow> string \<Rightarrow> string" where
  "details c n d cc h =
     details_heading
     @ ''   Code: '' @ c @ ''\<newline>''
     @ ''   Name: '' @ n @ ''\<newline>''
     @ ''   Description: '' @ d @ ''\<newline>''
     @ ''   Common Cause: '' @ cc @ ''\<newline>''
     @ ''   How to Handle: '' @ h @ ''\<newline>''"

definition info_details :: "McpErrorInfo \<Rightarrow> string" where
  "info_details info =
     details (Number_toString (code info)) (name info) (description info)
             (commonCause info) (howToHandle info)"

text \<open>
  \<^verbatim>\<open>formatMcpError\<close>. \<open>Inl\<close> is an exception leaving the function, \<open>Inr\<close> the returned string.
  The steps follow the source: the code, the message, the first line (a template literal,
  which converts the message to a string), then the table lookup under the key
  \<^verbatim>\<open>ToString(errorCode)\<close>. A value found in the table is truthy, be it an entry or a member of
  \<^verbatim>\<open>Object.prototype\<close>, whose missing fields print as \<^verbatim>\<open>undefined\<close>.
\<close>

definition formatMcpError :: "jsval \<Rightarrow> jsval + string" where
  "formatMcpError error =
     (let errorCode = errorCode_of error in
      case originalMessage error of
        Inl e \<Rightarrow> Inl e
      | Inr m \<Rightarrow>
         (case ToString m of
            Inl e \<Rightarrow> Inl e
          | Inr ms \<Rightarrow>
             (let errorMessage = ''Error: '' @ ms @ ''\<newline>'' in
              if errorCode = JUndefined then Inr errorMessage
              else case ToString errorCode of
                Inl e \<Rightarrow> Inl e
              | Inr key \<Rightarrow>
                 (case table_get key of
                    Known info \<Rightarrow> Inr (errorMessage @ info_details info)
                  | Builtin n \<Rightarrow>
                      Inr (errorMessage @
                           details ''undefined'' (case n of Some f \<Rightarrow> f | None \<Rightarrow> ''undefined'')
                                   ''undefined'' ''undefined'' ''undefined'')
                  | Missing \<Rightarrow>
                      Inr (errorMessage @ ''\<newline>Error Code: '' @ key @ '' (unknown MCP error code)\<newline>'')))))"

section \<open>The session manager\<close>

subsection \<open>State, environment and effects\<close>

datatype transportType = stdio | sse | http

text \<open>
  The three transports of the SDK, with what the program passes to their constructors:
  command and arguments, or URL and \<^verbatim>\<open>requestInit.headers\<close>.
\<close>

datatype transport =
    StdioClientTransport string "string list"
  | SSEClientTransport string "(string \<times> string) list option"
  | StreamableHTTPClientTransport string "(string \<times> string) list option"

text \<open>
  An element of \<^verbatim>\<open>this.tools\<close>. The server's descriptor is copied field by field
  (\<^verbatim>\<open>inputSchema\<close> becomes \<^verbatim>\<open>input_schema\<close>); the description may be absent.
\<close>

record tool =
  tool_name :: string
  tool_description :: "string option"
  input_schema :: jsval

text \<open>The fields of \<^verbatim>\<open>McpRepl\<close>. The SDK client \<^verbatim>\<open>this.mcp\<close> is part of the environment.\<close>

record McpRepl =
  transport :: "transport option"
  connected :: bool
  transportType :: "transportType option"
  transportTarget :: "string option"
  tools :: "tool list"

definition McpRepl_new :: McpRepl where
  "McpRepl_new =
     \<lparr>transport = None, connected = False, transportType = None, transportTarget = None, tools = []\<rparr>"

text \<open>
  What the world outside the class answers: the path of the Node executable, the exception
  \<^verbatim>\<open>new URL(url)\<close> throws for a string it rejects, and for each request of the SDK client
  either the value it rejects with or its result. Of the result of \<^verbatim>\<open>callTool\<close> only
  \<^verbatim>\<open>content\<close> is read, so that is what is recorded.
\<close>

record world =
  execPath :: string
  URL_error :: "string \<Rightarrow> jsval option"
  connect_error :: "transport \<Rightarrow> jsval option"
  close_error :: "jsval option"
  listTools_result :: "jsval + tool list"
  callTool_result :: "string \<Rightarrow> jsval \<Rightarrow> jsval + jsval"

text \<open>
  What a method does besides updating the fields, in order: lines on the console, requests
  made through the SDK client, and the creation of a fresh client.
\<close>

datatype effect =
    console_log string
  | console_log_tools "tool list"
  | console_log_tool tool
  | console_log_result jsval
  | console_error string
  | mcp_connect transport
  | mcp_close
  | mcp_listTools
  | mcp_callTool string jsval
  | new_Client

fun is_request :: "effect \<Rightarrow> bool" where
  "is_request (mcp_connect t) = True"
| "is_request mcp_close = True"
| "is_request mcp_listTools = True"
| "is_request (mcp_callTool n a) = True"
| "is_request _ = False"

text \<open>
  How a method ends: its promise resolves with a value, or rejects with what was thrown.
  None of the methods below returns anything but \<^verbatim>\<open>undefined\<close>: they end without a
  \<^verbatim>\<open>return\<close>, or with \<^verbatim>\<open>return console.log(...)\<close>, which is \<^verbatim>\<open>undefined\<close> too.
\<close>

datatype outcome = Returned jsval | Threw jsval

type_synonym result = "outcome \<times> McpRepl \<times> effect list"

subsection \<open>Connecting\<close>

text \<open>\<^verbatim>\<open>String.prototype.startsWith\<close> and \<^verbatim>\<open>String.prototype.includes\<close>.\<close>

fun String_startsWith :: "string \<Rightarrow> string \<Rightarrow> bool" where
  "String_startsWith s [] = True"
| "String_startsWith [] (c # cs) = False"
| "String_startsWith (x # xs) (c # cs) = (x = c \<and> String_startsWith xs cs)"

fun String_includes :: "string \<Rightarrow> string \<Rightarrow> bool" where
  "String_includes [] sub = (sub = [])"
| "String_includes (x # xs) sub = (String_startsWith (x # xs) sub \<or> String_includes xs sub)"

definition isShellCommand :: "string \<Rightarrow> bool" where
  "isShellCommand scriptPath =
     (String_includes scriptPath ''&&'' \<or>
      String_includes scriptPath ''cd '' \<or>
      String_startsWith scriptPath ''npx '' \<or>
      String_includes scriptPath '' '')"

definition stdio_transport :: "world \<Rightarrow> string \<Rightarrow> transport" where
  "stdio_transport w scriptPath =
     (if isShellCommand scriptPath
      then StdioClientTransport ''/bin/bash'' [''-c'', scriptPath]
      else StdioClientTransport (execPath w) [scriptPath])"

text \<open>\<^verbatim>\<open>apiKey ? { 'x-api-key': apiKey } : undefined\<close>: an empty key is falsy.\<close>

definition headers :: "string option \<Rightarrow> (string \<times> string) list option" where
  "headers apiKey =
     (case apiKey of
        None \<Rightarrow> None
      | Some k \<Rightarrow> if k = [] then None else Some [(''x-api-key'', k)])"

text \<open>
  The \<^verbatim>\<open>catch\<close> block of the three connect methods:
  \<^verbatim>\<open>console.error(`<prefix>:\n${formatMcpError(error)}`); throw error\<close>.
  Should the classifier throw, its exception leaves the method instead.
\<close>

definition rethrow :: "string \<Rightarrow> jsval \<Rightarrow> McpRepl \<Rightarrow> effect list \<Rightarrow> result" where
  "rethrow prefix error s evs =
     (case formatMcpError error of
        Inl e \<Rightarrow> (Threw e, s, evs)
      | Inr text \<Rightarrow> (Threw error, s, evs @ [console_error (prefix @ '':\<newline>'' @ text)]))"

text \<open>
  The part the three methods share once \<^verbatim>\<open>this.transport\<close> is assigned:
  \<^verbatim>\<open>await this.mcp.connect(this.transport)\<close>, then the log line and the three fields.
\<close>

definition attach :: "world \<Rightarrow> McpRepl \<Rightarrow> effect list \<Rightarrow> transport \<Rightarrow> string \<Rightarrow> transportType
    \<Rightarrow> string \<Rightarrow> string \<Rightarrow> result" where
  "attach w s evs t via kind target prefix =
     (let s1 = s\<lparr>transport := Some t\<rparr> in
      case connect_error w t of
        None \<Rightarrow>
          (Returned JUndefined,
           s1\<lparr>connected := True, transportType := Some kind, transportTarget := Some target\<rparr>,
           evs @ [mcp_connect t, console_log (''Connected via '' @ via @ '' to '' @ target)])
      | Some error \<Rightarrow> rethrow prefix error s1 (evs @ [mcp_connect t]))"

definition connectScript :: "world \<Rightarrow> McpRepl \<Rightarrow> string \<Rightarrow> result" where
  "connectScript w s scriptPath =
     attach w s [console_log (''Connecting via stdio to '' @ scriptPath)]
       (stdio_transport w scriptPath) ''stdio'' stdio scriptPath ''Failed to connect via stdio''"

definition connectSSE :: "world \<Rightarrow> McpRepl \<Rightarrow> string \<Rightarrow> string option \<Rightarrow> result" where
  "connectSSE w s url apiKey =
     (case URL_error w url of
        Some error \<Rightarrow>
          rethrow ''Failed to connect via SSE'' error s [console_log (''Connecting via SSE to '' @ url)]
      | None \<Rightarrow>
          attach w s [console_log (''Connecting via SSE to '' @ url)]
            (SSEClientTransport url (headers apiKey)) ''SSE'' sse url ''Failed to connect via SSE'')"

definition connectHTTP :: "world \<Rightarrow> McpRepl \<Rightarrow> string \<Rightarrow> string option \<Rightarrow> result" where
  "connectHTTP w s url apiKey =
     (case URL_error w url of
        Some error \<Rightarrow>
          rethrow ''Failed to connect via HTTP'' error s [console_log (''Connecting via HTTP to '' @ url)]
      | None \<Rightarrow>
          attach w s [console_log (''Connecting via HTTP to '' @ url)]
            (StreamableHTTPClientTransport url (headers apiKey)) ''HTTP'' http url
            ''Failed to connect via HTTP'')"

text \<open>
  The \<^verbatim>\<open>connect\<close> command of the REPL: \<^verbatim>\<open>const [type, target, apiKey] = args\<close>, the usage
  line when type or target is missing or empty, the dispatch on the type, and a \<^verbatim>\<open>catch\<close>
  that drops the rethrown error.
\<close>

definition repl_connect :: "world \<Rightarrow> McpRepl \<Rightarrow> string list \<Rightarrow> result" where
  "repl_connect w s args =
     (let usage = (Returned JUndefined, s, [console_log ''Usage: connect sse|http|stdio <url_or_script> [apiKey]''])
      in case args of
        type # target # rest \<Rightarrow>
          if type = [] \<or> target = [] then usage
          else
            (let apiKey = (case rest of [] \<Rightarrow> None | k # ks \<Rightarrow> Some k);
                 r = (if type = ''stdio'' then connectScript w s target
                      else if type = ''http'' then connectHTTP w s target apiKey
                      else if type = ''sse'' then connectSSE w s target apiKey
                      else (Returned JUndefined, s, [console_log (''Unknown transport type: '' @ type)]))
             in (Returned JUndefined, snd r))
      | _ \<Rightarrow> usage)"

subsection \<open>Disconnecting\<close>

text \<open>
  \<^verbatim>\<open>this.mcp.close()\<close> is awaited only when connected; if it rejects, nothing after it runs.
  The log line prints \<^verbatim>\<open>null\<close> for a missing target.
\<close>

definition disconnect :: "world \<Rightarrow> McpRepl \<Rightarrow> result" where
  "disconnect w s =
     (case (if connected s then close_error w else None) of
        Some error \<Rightarrow> (Threw error, s, [mcp_close])
      | None \<Rightarrow>
          (Returned JUndefined,
           s\<lparr>connected := False, transport := None, transportType := None,
             transportTarget := None, tools := []\<rparr>,
           (if connected s then [mcp_close] else [])
           @ [console_log (''Disconnected from '' @
                (case transportTarget s of None \<Rightarrow> ''null'' | Some target \<Rightarrow> target)),
              new_Client]))"

subsection \<open>The tool catalog\<close>

definition tool_line :: "tool \<Rightarrow> string" where
  "tool_line t =
     ''- '' @ tool_name t @ '': '' @
     (case tool_description t of None \<Rightarrow> ''undefined'' | Some d \<Rightarrow> d)"

definition listTools :: "world \<Rightarrow> McpRepl \<Rightarrow> bool \<Rightarrow> result" where
  "listTools w s full =
     (if \<not> connected s then (Returned JUndefined, s, [console_log ''Not connected.''])
      else case listTools_result w of
        Inl error \<Rightarrow>
          (case formatMcpError error of
             Inl e \<Rightarrow> (Threw e, s, [mcp_listTools])
           | Inr text \<Rightarrow>
               (Returned JUndefined, s, [mcp_listTools, console_error (''Failed to list tools:\<newline>'' @ text)]))
      | Inr ts \<Rightarrow>
          (Returned JUndefined, s\<lparr>tools := ts\<rparr>,
           mcp_listTools #
           (if ts = [] then [console_log ''No tools available.'']
            else if full then [console_log ''Available tools (full details):'', console_log_tools ts]
            else console_log ''Available tools:'' # map (\<lambda>t. console_log (tool_line t)) ts)))"

definition showTool :: "world \<Rightarrow> McpRepl \<Rightarrow> string \<Rightarrow> result" where
  "showTool w s toolName =
     (if \<not> connected s then (Returned JUndefined, s, [console_log ''Not connected.''])
      else
        (let loaded = (if tools s = [] then listTools w s False else (Returned JUndefined, s, []));
             s1 = fst (snd loaded);
             evs = snd (snd loaded)
         in case fst loaded of
           Threw error \<Rightarrow>
             (case formatMcpError error of
                Inl e \<Rightarrow> (Threw e, s1, evs)
              | Inr text \<Rightarrow>
                  (Returned JUndefined, s1, evs @ [console_error (''Failed to show tool:\<newline>'' @ text)]))
         | Returned v \<Rightarrow>
             (case find (\<lambda>t. tool_name t = toolName) (tools s1) of
                None \<Rightarrow> (Returned JUndefined, s1, evs @ [console_log (''Tool '' @ toolName @ '' not found.'')])
              | Some t \<Rightarrow>
                  (Returned JUndefined, s1, evs @ [console_log (''Tool: '' @ tool_name t), console_log_tool t]))))"

subsection \<open>Calling a tool\<close>

definition call :: "world \<Rightarrow> McpRepl \<Rightarrow> string \<Rightarrow> jsval \<Rightarrow> result" where
  "call w s toolName args =
     (if \<not> connected s then (Returned JUndefined, s, [console_log ''Not connected.''])
      else if find (\<lambda>t. tool_name t = toolName) (tools s) = None
        then (Returned JUndefined, s, [console_log (''Tool '' @ toolName @ '' not found.'')])
      else case callTool_result w toolName args of
        Inr content \<Rightarrow> (Returned JUndefined, s, [mcp_callTool toolName args, console_log_result content])
      | Inl error \<Rightarrow>
          (case formatMcpError error of
             Inl e \<Rightarrow> (Threw e, s, [mcp_callTool toolName args])
           | Inr text \<Rightarrow>
               (Returned JUndefined, s,
                [mcp_callTool toolName args, console_error (''Failed to call tool:\<newline>'' @ text)])))"

section \<open>Notions used to state the properties\<close>

text \<open>The values of the object \<^verbatim>\<open>MCP_ERROR_CODES\<close>.\<close>

definition MCP_ERROR_CODES :: "54 word list" where
  "MCP_ERROR_CODES =
     [AUTHENTICATION_ERROR, INVALID_SESSION, METHOD_NOT_FOUND, INVALID_PARAMETERS,
      INTERNAL_ERROR, PARSE_ERROR]"

text \<open>The entry of the static table that describes a given code.\<close>

definition table_entry_for :: "54 word \<Rightarrow> McpErrorInfo option" where
  "table_entry_for k = find (\<lambda>info. code info = k) (map snd MCP_ERROR_INFO)"

text \<open>
  Probing in order: the places a code is looked for, the places a message is looked for
  (the last being the result of the generic string conversion), and two ways of choosing
  among probed values, the first that is present and the first that is truthy.
\<close>

definition code_probes :: "jsval \<Rightarrow> jsval list" where
  "code_probes e =
     [opt_get e P_code,
      opt_get (opt_get e P_error) P_code,
      opt_get (opt_get (opt_get e P_response) P_error) P_code]"

definition message_probes :: "jsval \<Rightarrow> jsval \<Rightarrow> jsval list" where
  "message_probes e str = [opt_get e P_message, opt_get (opt_get e P_error) P_message, str]"

definition first_present :: "jsval list \<Rightarrow> jsval \<Rightarrow> jsval" where
  "first_present vs d = (case find (\<lambda>v. v \<noteq> JUndefined) vs of Some v \<Rightarrow> v | None \<Rightarrow> d)"

definition first_truthy :: "jsval list \<Rightarrow> jsval \<Rightarrow> jsval" where
  "first_truthy vs d = (case find truthy vs of Some v \<Rightarrow> v | None \<Rightarrow> d)"

text \<open>
  The Disconnected state of a session: not connected, no transport type, no target, and an
  empty catalog. The field \<^verbatim>\<open>transport\<close> is not part of it.
\<close>

definition Disconnected :: "McpRepl \<Rightarrow> bool" where
  "Disconnected s =
     (connected s = False \<and> transportType s = None \<and> transportTarget s = None \<and> tools s = [])"

text \<open>Reading a decimal string back, to show that distinct numbers print differently.\<close>

definition digit_value :: "char \<Rightarrow> nat" where
  "digit_value c = of_char c - 48"

definition nat_of_string :: "string \<Rightarrow> nat" where
  "nat_of_string s = foldl (\<lambda>a c. 10 * a + digit_value c) 0 s"

text \<open>
  The shell-mode condition in the words of the specification: a shell metacharacter
  (the operator characters of the POSIX shell), a leading interpreter token, or white space.
\<close>

definition shell_metacharacters :: "char list" where
  "shell_metacharacters = ''|&;<>()''"

definition interpreter_tokens :: "string list" where
  "interpreter_tokens = [''npx '', ''node '']"

definition whitespace :: "char list" where
  "whitespace = [CHR '' '', CHR 0x09, CHR 0x0A]"

definition spec_shell_mode :: "string \<Rightarrow> bool" where
  "spec_shell_mode target =
     (list_ex (\<lambda>c. c \<in> set shell_metacharacters) target \<or>
      list_ex (\<lambda>t. String_startsWith target t) interpreter_tokens \<or>
      list_ex (\<lambda>c. c \<in> set whitespace) target)"

section \<open>Concrete inputs\<close>

text \<open>
  A server that advertises one tool, accepts every connection and answers every call with
  one content block; the same server refusing connections, and the same server failing the
  tool listing; a session connected to it.
\<close>

definition get_weather :: tool where
  "get_weather =
     \<lparr>tool_name = ''get_weather'',
      tool_description = Some ''Get current weather information for a location'',
      input_schema = JObj ObjectProto [(''type'', JStr ''object'')]\<rparr>"

definition sunny :: jsval where
  "sunny = JObj ObjectProto [(''type'', JStr ''text''), (''text'', JStr ''sunny'')]"

definition server_up :: world where
  "server_up =
     \<lparr>execPath = ''/usr/bin/node'',
      URL_error = (\<lambda>url. None),
      connect_error = (\<lambda>t. None),
      close_error = None,
      listTools_result = Inr [get_weather],
      callTool_result = (\<lambda>n a. Inr sunny)\<rparr>"

definition ECONNREFUSED :: jsval where
  "ECONNREFUSED =
     JObj ErrorProto [(''message'', JStr ''connect ECONNREFUSED 127.0.0.1:3000''),
                      (''code'', JStr ''ECONNREFUSED'')]"

definition server_down :: world where
  "server_down = server_up\<lparr>connect_error := (\<lambda>t. Some ECONNREFUSED)\<rparr>"

definition listing_fails :: world where
  "listing_fails =
     server_up\<lparr>listTools_result :=
       Inl (JObj ErrorProto [(''message'', JStr ''Request timed out'')])\<rparr>"

definition connected_to_a :: McpRepl where
  "connected_to_a =
     \<lparr>transport = Some (SSEClientTransport ''http://a.example/sse'' None),
      connected = True,
      transportType = Some sse,
      transportTarget = Some ''http://a.example/sse'',
      tools = [get_weather]\<rparr>"

section \<open>Decimal strings\<close>

text \<open>
  Printing a number and reading the digits back gives the number, so distinct numbers have
  distinct decimal strings, and such a string consists of digits and at most a leading
  minus sign.
\<close>

lemma digit_value_digit_char: "d < 10 \<Longrightarrow> digit_value (digit_char d) = d"
proof -
  assume "d < 10"
  then have "d = 0 \<or> d = 1 \<or> d = 2 \<or> d = 3 \<or> d = 4 \<or> d = 5 \<or> d = 6 \<or> d = 7 \<or> d = 8 \<or> d = 9"
    by arith
  then show ?thesis
    by (elim disjE) (simp_all add: digit_value_def digit_char_def)
qed

lemma digit_char_in: "d < 10 \<Longrightarrow> digit_char d \<in> set ''0123456789''"
  unfolding digit_char_def by (rule nth_mem) simp

lemma nat_of_string_snoc: "nat_of_string (s @ [c]) = 10 * nat_of_string s + digit_value c"
  by (simp add: nat_of_string_def)

lemma nat_of_string_of_nat: "nat_of_string (string_of_nat n) = n"
proof (induction n rule: string_of_nat.induct)
  case (1 n)
  show ?case
  proof (cases "n < 10")
    case True
    then show ?thesis
      by (simp add: string_of_nat.simps [of n] nat_of_string_def digit_value_digit_char)
  next
    case False
    with 1 show ?thesis
      by (simp add: string_of_nat.simps [of n] nat_of_string_snoc digit_value_digit_char)
  qed
qed

lemma string_of_nat_digits: "set (string_of_nat n) \<subseteq> set ''0123456789''"
proof (induction n rule: string_of_nat.induct)
  case (1 n)
  have d: "digit_char (n mod 10) \<in> set ''0123456789''"
    by (rule digit_char_in) simp
  show ?case
  proof (cases "n < 10")
    case True
    then show ?thesis
      using digit_char_in [of n] by (simp add: string_of_nat.simps [of n])
  next
    case False
    with 1 d show ?thesis
      by (simp add: string_of_nat.simps [of n])
  qed
qed

lemma string_of_nat_nonempty: "string_of_nat n \<noteq> []"
  by (subst string_of_nat.simps) simp

lemma string_of_nat_inj: "string_of_nat m = string_of_nat n \<longleftrightarrow> m = n"
proof
  assume "string_of_nat m = string_of_nat n"
  then have "nat_of_string (string_of_nat m) = nat_of_string (string_of_nat n)"
    by (rule arg_cong)
  then show "m = n"
    by (simp only: nat_of_string_of_nat)
qed simp

lemma string_of_nat_no_minus: "string_of_nat n \<noteq> CHR ''-'' # s"
proof
  assume "string_of_nat n = CHR ''-'' # s"
  then have "CHR ''-'' \<in> set (string_of_nat n)"
    by simp
  then have "CHR ''-'' \<in> set ''0123456789''"
    using string_of_nat_digits [of n] by (rule subsetD [rotated])
  then show False
    by simp
qed

lemma string_of_int_inj: "string_of_int i = string_of_int j \<longleftrightarrow> i = j"
proof
  assume eq: "string_of_int i = string_of_int j"
  consider "i < 0" "j < 0" | "i < 0" "0 \<le> j" | "0 \<le> i" "j < 0" | "0 \<le> i" "0 \<le> j"
    by linarith
  then show "i = j"
  proof cases
    case 1
    with eq have "string_of_nat (nat (- i)) = string_of_nat (nat (- j))"
      by (simp add: string_of_int_def)
    then have "nat (- i) = nat (- j)"
      by (simp only: string_of_nat_inj)
    with 1 show ?thesis by linarith
  next
    case 2
    with eq have "string_of_nat (nat j) = CHR ''-'' # string_of_nat (nat (- i))"
      by (simp add: string_of_int_def)
    then show ?thesis
      by (simp only: string_of_nat_no_minus)
  next
    case 3
    with eq have "string_of_nat (nat i) = CHR ''-'' # string_of_nat (nat (- j))"
      by (simp add: string_of_int_def)
    then show ?thesis
      by (simp only: string_of_nat_no_minus)
  next
    case 4
    with eq have "string_of_nat (nat i) = string_of_nat (nat j)"
      by (simp add: string_of_int_def)
    then have "nat i = nat j"
      by (simp only: string_of_nat_inj)
    with 4 show ?thesis by linarith
  qed
qed simp

lemma string_of_int_chars: "set (string_of_int i) \<subseteq> set ''-0123456789''"
proof (cases "i < 0")
  case True
  then show ?thesis
    using string_of_nat_digits [of "nat (- i)"] by (simp add: string_of_int_def subset_insertI2)
next
  case False
  then show ?thesis
    using string_of_nat_digits [of "nat i"] by (simp add: string_of_int_def subset_insertI2)
qed

section \<open>Properties of the classifier\<close>

subsection \<open>Looking a numeric code up\<close>

text \<open>
  A numeric key never names a member of \<^verbatim>\<open>Object.prototype\<close>, and it finds exactly the
  table entry whose \<^verbatim>\<open>code\<close> field is that number.
\<close>

lemma Number_toString_inj: "Number_toString i = Number_toString j \<longleftrightarrow> i = j"
proof
  assume "Number_toString i = Number_toString j"
  then have "sint i = sint j"
    by (simp only: Number_toString_def string_of_int_inj)
  then show "i = j"
    by (rule signed_word_eqI)
qed simp

lemma numeric_key_not_builtin: "map_of Object_prototype_members (Number_toString k) = None"
proof -
  have "hd (string_of_int (sint k)) \<in> set (string_of_int (sint k))"
    by (rule hd_in_set) (simp add: string_of_int_def string_of_nat_nonempty)
  then have h: "hd (Number_toString k) \<in> set ''-0123456789''"
    unfolding Number_toString_def
    using string_of_int_chars [of "sint k"] by (rule subsetD [rotated])
  have "\<And>s. s \<in> fst ` set Object_prototype_members \<Longrightarrow> hd s \<notin> set ''-0123456789''"
    unfolding Object_prototype_members_def by auto
  with h have "Number_toString k \<notin> fst ` set Object_prototype_members"
    by blast
  then show ?thesis by (simp add: map_of_eq_None_iff)
qed

lemmas code_defs =
  AUTHENTICATION_ERROR_def INVALID_SESSION_def METHOD_NOT_FOUND_def INVALID_PARAMETERS_def
  INTERNAL_ERROR_def PARSE_ERROR_def

lemma table_lookup: "map_of MCP_ERROR_INFO (Number_toString k) = table_entry_for k"
  unfolding MCP_ERROR_INFO_def table_entry_for_def
  by (simp add: Number_toString_inj code_defs)

lemma table_entry_known:
  "k \<in> set MCP_ERROR_CODES \<Longrightarrow> \<exists>info. table_entry_for k = Some info \<and> code info = k"
  unfolding MCP_ERROR_CODES_def table_entry_for_def MCP_ERROR_INFO_def
  by (auto simp: code_defs)

lemma table_entry_unknown:
  "k \<notin> set MCP_ERROR_CODES \<Longrightarrow> table_entry_for k = None"
  unfolding MCP_ERROR_CODES_def table_entry_for_def MCP_ERROR_INFO_def
  by (simp add: code_defs)

lemma table_get_numeric:
  "table_get (Number_toString k) =
     (case table_entry_for k of Some info \<Rightarrow> Known info | None \<Rightarrow> Missing)"
  unfolding table_get_def
  by (simp add: table_lookup numeric_key_not_builtin split: option.split)

lemma formatMcpError_numeric:
  assumes "originalMessage e = Inr m" and "ToString m = Inr text" and "errorCode_of e = JNum k"
  shows "formatMcpError e =
     Inr (''Error: '' @ text @ ''\<newline>'' @
          (case table_entry_for k of
             Some info \<Rightarrow> info_details info
           | None \<Rightarrow> ''\<newline>Error Code: '' @ Number_toString k @ '' (unknown MCP error code)\<newline>''))"
  using assms unfolding formatMcpError_def
  by (simp add: table_get_numeric split: option.split)

subsection \<open>Whether the classifier returns\<close>

text \<open>
  C4. The classifier is claimed to return a string for every input, an object without a
  prototype included. For \<^verbatim>\<open>Object.create(null)\<close> it does not: neither message is present,
  so \<^verbatim>\<open>error?.toString()\<close> is evaluated; the object is not nullish, it has no \<^verbatim>\<open>toString\<close>,
  and calling \<^verbatim>\<open>undefined\<close> throws a \<^verbatim>\<open>TypeError\<close> that leaves \<^verbatim>\<open>formatMcpError\<close>.
\<close>

theorem formatMcpError_throws_without_prototype:
  "formatMcpError (JObj NullProto []) = Inl (TypeError ''error?.toString is not a function'')"
  by (simp add: formatMcpError_def errorCode_of_def originalMessage_def has_own_def)

text \<open>
  On the other inputs the claim names that the model holds, \<^verbatim>\<open>null\<close>, \<^verbatim>\<open>undefined\<close> and the
  empty object, the classifier returns; so it does on every instance of \<^verbatim>\<open>Error\<close> with a
  non-empty message string and no code.
\<close>

lemma formatMcpError_returns:
  "formatMcpError JNull = Inr ''Error: Unknown error\<newline>''"
  "formatMcpError JUndefined = Inr ''Error: Unknown error\<newline>''"
  "formatMcpError (JObj ObjectProto []) = Inr ''Error: [object Object]\<newline>''"
  "msg \<noteq> [] \<Longrightarrow>
     formatMcpError (JObj ErrorProto [(''message'', JStr msg)]) = Inr (''Error: '' @ msg @ ''\<newline>'')"
  by (simp_all add: formatMcpError_def errorCode_of_def originalMessage_def has_own_def)

subsection \<open>Order of extraction\<close>

text \<open>
  C5, as stated: the message is chosen like the code, the first present probe winning.
  It is not: \<^verbatim>\<open>||\<close> skips a probe that is present but falsy. For
  \<^verbatim>\<open>{message: "", error: {message: "inner"}}\<close> the direct message is present and empty, and
  the classifier takes the nested one.
\<close>

theorem message_first_present_counterexample:
  "originalMessage (JObj ObjectProto [(''message'', JStr ''''), (''error'', JObj ObjectProto [(''message'', JStr ''inner'')])])
     = Inr (JStr ''inner'')
   \<and> call_toString (JObj ObjectProto [(''message'', JStr ''''), (''error'', JObj ObjectProto [(''message'', JStr ''inner'')])])
     = Inr (JStr ''[object Object]'')
   \<and> first_present
        (message_probes (JObj ObjectProto [(''message'', JStr ''''), (''error'', JObj ObjectProto [(''message'', JStr ''inner'')])])
           (JStr ''[object Object]''))
        (JStr ''Unknown error'')
     = JStr ''''"
  by (simp add: originalMessage_def first_present_def message_probes_def has_own_def)

text \<open>
  C5, amended. For every input the code is the first of \<^verbatim>\<open>error.code\<close>, \<^verbatim>\<open>error.error.code\<close>
  and \<^verbatim>\<open>error.response.error.code\<close> that is not \<^verbatim>\<open>undefined\<close>, and \<^verbatim>\<open>undefined\<close> when
  none is. The message is the first truthy one of \<^verbatim>\<open>error.message\<close>, \<^verbatim>\<open>error.error.message\<close>
  and the value \<open>str\<close> of \<^verbatim>\<open>error?.toString()\<close>, and \<^verbatim>\<open>Unknown error\<close> when none is truthy;
  a present but falsy value is passed over. The string conversion is evaluated only when
  the two messages are falsy, and this is stated for the inputs on which it then yields
  a value.
\<close>

theorem extraction_order:
  "errorCode_of e = first_present (code_probes e) JUndefined
   \<and> (truthy (opt_get e P_message) \<or> truthy (opt_get (opt_get e P_error) P_message)
        \<or> call_toString e = Inr str \<longrightarrow>
        originalMessage e = Inr (first_truthy (message_probes e str) (JStr ''Unknown error'')))"
  by (auto simp: errorCode_of_def first_present_def code_probes_def originalMessage_def
      first_truthy_def message_probes_def)

theorem extraction_order_witness:
  "call_toString (JObj ObjectProto [(''message'', JNull), (''response'', JObj ObjectProto [(''error'', JObj ObjectProto [(''code'', JNum 5)])])])
     = Inr (JStr ''[object Object]'')
   \<and> errorCode_of (JObj ObjectProto [(''message'', JNull), (''response'', JObj ObjectProto [(''error'', JObj ObjectProto [(''code'', JNum 5)])])])
     = JNum 5
   \<and> originalMessage (JObj ObjectProto [(''message'', JNull), (''response'', JObj ObjectProto [(''error'', JObj ObjectProto [(''code'', JNum 5)])])])
     = Inr (JStr ''[object Object]'')
   \<and> truthy (opt_get (JObj NullProto [(''message'', JStr ''refused'')]) P_message)
   \<and> originalMessage (JObj NullProto [(''message'', JStr ''refused'')]) = Inr (JStr ''refused'')"
proof -
  let ?e = "JObj ObjectProto [(''message'', JNull), (''response'', JObj ObjectProto [(''error'', JObj ObjectProto [(''code'', JNum 5)])])]"
  let ?f = "JObj NullProto [(''message'', JStr ''refused'')]"
  have h: "call_toString ?e = Inr (JStr ''[object Object]'')"
    by (simp add: has_own_def)
  have t: "truthy (opt_get ?f P_message)"
    by simp
  from extraction_order [of ?e "JStr ''[object Object]''"] h
  have 1: "errorCode_of ?e = JNum 5 \<and> originalMessage ?e = Inr (JStr ''[object Object]'')"
    by (simp add: first_present_def code_probes_def first_truthy_def message_probes_def)
  from extraction_order [of ?f JUndefined] t
  have 2: "originalMessage ?f = Inr (JStr ''refused'')"
    by (simp add: first_truthy_def message_probes_def)
  from h 1 t 2 show ?thesis
    by (intro conjI) simp_all
qed

subsection \<open>The diagnostic for a code\<close>

text \<open>
  C6. Let the message of an error be extracted and printed as \<open>text\<close>. If the error
  carries one of the six known codes, the diagnostic is the line \<^verbatim>\<open>Error: <text>\<close>, the
  heading, and five lines that give the code and, unchanged, the name, the description,
  the common cause and the remedy of the table entry for that code. If it carries another
  numeric code, the diagnostic is the first line followed by
  \<^verbatim>\<open>Error Code: <code> (unknown MCP error code)\<close> and nothing else. If it carries no code,
  the diagnostic is the first line alone.
\<close>

theorem classify_by_code:
  assumes "originalMessage e = Inr m" and "ToString m = Inr text"
  shows "(k \<in> set MCP_ERROR_CODES \<and> errorCode_of e = JNum k \<longrightarrow>
            (\<exists>info. table_entry_for k = Some info \<and> code info = k \<and>
               formatMcpError e =
                 Inr (''Error: '' @ text @ ''\<newline>''
                      @ ''\<newline>'' @ [CHR 0xC3, CHR 0xB0, CHR 0xC5, CHR 0xB8, CHR 0xE2, CHR 0x80, CHR 0x9C, CHR 0xE2, CHR 0x80, CHR 0xB9] @ '' MCP Error Details:\<newline>''
                      @ ''   Code: '' @ Number_toString k @ ''\<newline>''
                      @ ''   Name: '' @ name info @ ''\<newline>''
                      @ ''   Description: '' @ description info @ ''\<newline>''
                      @ ''   Common Cause: '' @ commonCause info @ ''\<newline>''
                      @ ''   How to Handle: '' @ howToHandle info @ ''\<newline>'')))
       \<and> (k \<notin> set MCP_ERROR_CODES \<and> errorCode_of e = JNum k \<longrightarrow>
            formatMcpError e =
              Inr (''Error: '' @ text @ ''\<newline>'' @
                   ''\<newline>Error Code: '' @ Number_toString k @ '' (unknown MCP error code)\<newline>''))
       \<and> (errorCode_of e = JUndefined \<longrightarrow>
            formatMcpError e = Inr (''Error: '' @ text @ ''\<newline>''))"
proof (intro conjI impI)
  assume a: "k \<in> set MCP_ERROR_CODES \<and> errorCode_of e = JNum k"
  then obtain info where i: "table_entry_for k = Some info" "code info = k"
    using table_entry_known by blast
  from a i assms have "formatMcpError e =
        Inr (''Error: '' @ text @ ''\<newline>''
             @ ''\<newline>'' @ [CHR 0xC3, CHR 0xB0, CHR 0xC5, CHR 0xB8, CHR 0xE2, CHR 0x80, CHR 0x9C, CHR 0xE2, CHR 0x80, CHR 0xB9] @ '' MCP Error Details:\<newline>''
             @ ''   Code: '' @ Number_toString k @ ''\<newline>''
             @ ''   Name: '' @ name info @ ''\<newline>''
             @ ''   Description: '' @ description info @ ''\<newline>''
             @ ''   Common Cause: '' @ commonCause info @ ''\<newline>''
             @ ''   How to Handle: '' @ howToHandle info @ ''\<newline>'')"
    by (simp add: formatMcpError_numeric info_details_def details_def details_heading_def)
  with i show "\<exists>info. table_entry_for k = Some info \<and> code info = k \<and>
      formatMcpError e =
        Inr (''Error: '' @ text @ ''\<newline>''
             @ ''\<newline>'' @ [CHR 0xC3, CHR 0xB0, CHR 0xC5, CHR 0xB8, CHR 0xE2, CHR 0x80, CHR 0x9C, CHR 0xE2, CHR 0x80, CHR 0xB9] @ '' MCP Error Details:\<newline>''
             @ ''   Code: '' @ Number_toString k @ ''\<newline>''
             @ ''   Name: '' @ name info @ ''\<newline>''
             @ ''   Description: '' @ description info @ ''\<newline>''
             @ ''   Common Cause: '' @ commonCause info @ ''\<newline>''
             @ ''   How to Handle: '' @ howToHandle info @ ''\<newline>'')"
    by blast
next
  assume "k \<notin> set MCP_ERROR_CODES \<and> errorCode_of e = JNum k"
  with assms show "formatMcpError e =
      Inr (''Error: '' @ text @ ''\<newline>'' @
           ''\<newline>Error Code: '' @ Number_toString k @ '' (unknown MCP error code)\<newline>'')"
    by (simp add: formatMcpError_numeric table_entry_unknown)
next
  assume "errorCode_of e = JUndefined"
  with assms show "formatMcpError e = Inr (''Error: '' @ text @ ''\<newline>'')"
    by (simp add: formatMcpError_def)
qed

theorem classify_by_code_witness:
  "originalMessage (JObj ErrorProto [(''message'', JStr ''Authentication failed''), (''code'', JNum (- 32000))])
     = Inr (JStr ''Authentication failed'')
   \<and> - 32000 \<in> set MCP_ERROR_CODES
   \<and> errorCode_of (JObj ErrorProto [(''message'', JStr ''Authentication failed''), (''code'', JNum (- 32000))])
     = JNum (- 32000)
   \<and> formatMcpError (JObj ErrorProto [(''message'', JStr ''Authentication failed''), (''code'', JNum (- 32000))]) =
       Inr (''Error: Authentication failed\<newline>\<newline>'' @ [CHR 0xC3, CHR 0xB0, CHR 0xC5, CHR 0xB8, CHR 0xE2, CHR 0x80, CHR 0x9C, CHR 0xE2, CHR 0x80, CHR 0xB9]
            @ '' MCP Error Details:\<newline>   Code: -32000\<newline>   Name: Authentication Error\<newline>   Description: Missing or invalid authentication token\<newline>   Common Cause: The API key or authentication credentials are missing or invalid\<newline>   How to Handle: Check your MCP_API_KEY environment variable or provide a valid API key when connecting\<newline>'')
   \<and> 7 \<notin> set MCP_ERROR_CODES
   \<and> errorCode_of (JObj ErrorProto [(''message'', JStr ''boom''), (''error'', JObj ObjectProto [(''code'', JNum 7)])]) = JNum 7
   \<and> formatMcpError (JObj ErrorProto [(''message'', JStr ''boom''), (''error'', JObj ObjectProto [(''code'', JNum 7)])]) =
       Inr ''Error: boom\<newline>\<newline>Error Code: 7 (unknown MCP error code)\<newline>''
   \<and> errorCode_of JNull = JUndefined
   \<and> formatMcpError JNull = Inr ''Error: Unknown error\<newline>''"
proof -
  let ?e1 = "JObj ErrorProto [(''message'', JStr ''Authentication failed''), (''code'', JNum (- 32000))]"
  let ?e2 = "JObj ErrorProto [(''message'', JStr ''boom''), (''error'', JObj ObjectProto [(''code'', JNum 7)])]"
  have m1: "originalMessage ?e1 = Inr (JStr ''Authentication failed'')"
    by (simp add: originalMessage_def)
  have m2: "originalMessage ?e2 = Inr (JStr ''boom'')"
    by (simp add: originalMessage_def)
  have m3: "originalMessage JNull = Inr (JStr ''Unknown error'')"
    by (simp add: originalMessage_def)
  have k1: "- 32000 \<in> set MCP_ERROR_CODES"
    by (simp add: MCP_ERROR_CODES_def code_defs)
  have k2: "7 \<notin> set MCP_ERROR_CODES"
    by (simp add: MCP_ERROR_CODES_def code_defs)
  have c1: "errorCode_of ?e1 = JNum (- 32000)"
    by (simp add: errorCode_of_def)
  have c2: "errorCode_of ?e2 = JNum 7"
    by (simp add: errorCode_of_def)
  have c3: "errorCode_of JNull = JUndefined"
    by (simp add: errorCode_of_def)
  have t: "table_entry_for (- 32000) = Some (snd (hd MCP_ERROR_INFO))"
    by (simp add: table_entry_for_def MCP_ERROR_INFO_def)
  have s1: "Number_toString (- 32000) = ''-32000''" and s2: "Number_toString 7 = ''7''"
    by (simp_all add: Number_toString_def string_of_int_def string_of_nat.simps digit_char_def)
  have r1: "formatMcpError ?e1 =
       Inr (''Error: Authentication failed\<newline>\<newline>'' @ [CHR 0xC3, CHR 0xB0, CHR 0xC5, CHR 0xB8, CHR 0xE2, CHR 0x80, CHR 0x9C, CHR 0xE2, CHR 0x80, CHR 0xB9]
            @ '' MCP Error Details:\<newline>   Code: -32000\<newline>   Name: Authentication Error\<newline>   Description: Missing or invalid authentication token\<newline>   Common Cause: The API key or authentication credentials are missing or invalid\<newline>   How to Handle: Check your MCP_API_KEY environment variable or provide a valid API key when connecting\<newline>'')"
    using classify_by_code [OF m1, of "''Authentication failed''" "- 32000"] k1 c1 t
    by (simp add: s1 MCP_ERROR_INFO_def)
  have r2: "formatMcpError ?e2 = Inr ''Error: boom\<newline>\<newline>Error Code: 7 (unknown MCP error code)\<newline>''"
    using classify_by_code [OF m2, of "''boom''" 7] k2 c2
    by (simp add: s2)
  have r3: "formatMcpError JNull = Inr ''Error: Unknown error\<newline>''"
    using classify_by_code [OF m3, of "''Unknown error''"] c3
    by simp
  from m1 k1 c1 r1 k2 c2 r2 c3 r3 show ?thesis
    by (intro conjI)
qed

section \<open>Properties of the session manager\<close>

lemmas connect_defs =
  connectScript_def connectSSE_def connectHTTP_def attach_def rethrow_def headers_def

subsection \<open>Catalog after a connect\<close>

text \<open>
  C1. Every successful connect is to refresh the Tool Catalog, so that the tools of the
  server are in it when connect returns. The code does not do so: connected from a new
  session to a server that advertises \<^verbatim>\<open>get_weather\<close>, the session has an empty catalog, no
  listing was requested, and a call of \<^verbatim>\<open>get_weather\<close> right after is answered with the
  not-found line.
\<close>

theorem connect_leaves_catalog_empty:
  "connectSSE server_up McpRepl_new ''http://localhost:3000/sse'' None =
     (Returned JUndefined,
      \<lparr>transport = Some (SSEClientTransport ''http://localhost:3000/sse'' None),
       connected = True, transportType = Some sse,
       transportTarget = Some ''http://localhost:3000/sse'', tools = []\<rparr>,
      [console_log ''Connecting via SSE to http://localhost:3000/sse'',
       mcp_connect (SSEClientTransport ''http://localhost:3000/sse'' None),
       console_log ''Connected via SSE to http://localhost:3000/sse''])
   \<and> listTools_result server_up = Inr [get_weather]
   \<and> call server_up
        \<lparr>transport = Some (SSEClientTransport ''http://localhost:3000/sse'' None),
         connected = True, transportType = Some sse,
         transportTarget = Some ''http://localhost:3000/sse'', tools = []\<rparr>
        ''get_weather'' (JObj ObjectProto [(''city'', JStr ''NYC'')]) =
     (Returned JUndefined,
      \<lparr>transport = Some (SSEClientTransport ''http://localhost:3000/sse'' None),
       connected = True, transportType = Some sse,
       transportTarget = Some ''http://localhost:3000/sse'', tools = []\<rparr>,
      [console_log ''Tool get_weather not found.''])"
  by (simp add: connect_defs call_def server_up_def get_weather_def McpRepl_new_def)

subsection \<open>Connecting while connected\<close>

text \<open>
  C2. A connect issued while connected is claimed to disconnect the old session first. It
  does not: connected over SSE to one server, \<^verbatim>\<open>connectHTTP\<close> to another opens the new
  transport without any \<^verbatim>\<open>close\<close>, and the catalog of the old server stays in place. The
  \<^verbatim>\<open>connect\<close> command of the REPL does the same.
\<close>

theorem reconnect_without_disconnect:
  "connectHTTP server_up connected_to_a ''http://b.example/mcp'' None =
     (Returned JUndefined,
      \<lparr>transport = Some (StreamableHTTPClientTransport ''http://b.example/mcp'' None),
       connected = True, transportType = Some http,
       transportTarget = Some ''http://b.example/mcp'', tools = [get_weather]\<rparr>,
      [console_log ''Connecting via HTTP to http://b.example/mcp'',
       mcp_connect (StreamableHTTPClientTransport ''http://b.example/mcp'' None),
       console_log ''Connected via HTTP to http://b.example/mcp''])
   \<and> repl_connect server_up connected_to_a [''http'', ''http://b.example/mcp''] =
       connectHTTP server_up connected_to_a ''http://b.example/mcp'' None
   \<and> connected connected_to_a
   \<and> transport connected_to_a = Some (SSEClientTransport ''http://a.example/sse'' None)"
  by (simp add: connect_defs repl_connect_def server_up_def connected_to_a_def get_weather_def)

subsection \<open>A connect that fails\<close>

text \<open>
  The \<^verbatim>\<open>catch\<close> block changes no field, and a connection that is refused leaves only the
  assigned handle behind.
\<close>

lemma rethrow_state: "fst (snd (rethrow prefix error s evs)) = s"
  by (simp add: rethrow_def split: sum.split)

lemma attach_failed:
  assumes "fst (attach w s evs t via kind target prefix) = Threw e"
  shows "fst (snd (attach w s evs t via kind target prefix)) = s\<lparr>transport := Some t\<rparr>"
  using assms by (simp add: attach_def Let_def rethrow_state split: option.splits)

lemma format_ECONNREFUSED:
  "formatMcpError ECONNREFUSED =
     Inr ''Error: connect ECONNREFUSED 127.0.0.1:3000\<newline>\<newline>Error Code: ECONNREFUSED (unknown MCP error code)\<newline>''"
  by (simp add: ECONNREFUSED_def formatMcpError_def errorCode_of_def originalMessage_def
      table_get_def MCP_ERROR_INFO_def Object_prototype_members_def code_defs
      Number_toString_def string_of_int_def string_of_nat.simps digit_char_def)

text \<open>
  C3, as stated: after a failed connect no partial session state is kept, the transport
  handle included, and the state is what it was. It is not: the handle is assigned before
  the connection is attempted and nothing resets it. A new session refused by the server
  ends with \<^verbatim>\<open>this.transport\<close> set.
\<close>

theorem failed_connect_keeps_transport_counterexample:
  "connectSSE server_down McpRepl_new ''http://localhost:3000/sse'' None =
     (Threw ECONNREFUSED,
      McpRepl_new\<lparr>transport := Some (SSEClientTransport ''http://localhost:3000/sse'' None)\<rparr>,
      [console_log ''Connecting via SSE to http://localhost:3000/sse'',
       mcp_connect (SSEClientTransport ''http://localhost:3000/sse'' None),
       console_error ''Failed to connect via SSE:\<newline>Error: connect ECONNREFUSED 127.0.0.1:3000\<newline>\<newline>Error Code: ECONNREFUSED (unknown MCP error code)\<newline>''])
   \<and> McpRepl_new\<lparr>transport := Some (SSEClientTransport ''http://localhost:3000/sse'' None)\<rparr> \<noteq> McpRepl_new"
  by (simp add: connect_defs server_down_def server_up_def McpRepl_new_def format_ECONNREFUSED)

text \<open>
  C3, amended. When a connect method throws in a session that is Disconnected, the session
  is still Disconnected, with an empty catalog and neither transport type nor target, and
  it differs from the session before the attempt in the transport handle at most.
\<close>

theorem failed_connect_stays_disconnected:
  assumes "Disconnected s"
    and "r = connectScript w s scriptPath \<or> r = connectSSE w s url apiKey \<or> r = connectHTTP w s url apiKey"
    and "fst r = Threw e"
  shows "Disconnected (fst (snd r)) \<and> (\<exists>h. fst (snd r) = s\<lparr>transport := h\<rparr>)"
proof -
  have keep: "Disconnected (s\<lparr>transport := h\<rparr>)" for h
    using assms(1) by (simp add: Disconnected_def)
  have same: "s = s\<lparr>transport := transport s\<rparr>"
    by simp
  from assms(2,3) have "fst (snd r) = s \<or> (\<exists>t. fst (snd r) = s\<lparr>transport := Some t\<rparr>)"
    by (auto simp: connectScript_def connectSSE_def connectHTTP_def attach_failed rethrow_state
        split: option.splits)
  then show ?thesis
  proof
    assume "fst (snd r) = s"
    with assms(1) same show ?thesis
      by metis
  next
    assume "\<exists>t. fst (snd r) = s\<lparr>transport := Some t\<rparr>"
    with keep show ?thesis
      by metis
  qed
qed

theorem failed_connect_stays_disconnected_witness:
  "Disconnected (McpRepl_new\<lparr>transport := Some (SSEClientTransport ''http://localhost:3000/sse'' None)\<rparr>)
   \<and> fst (connectHTTP server_down
            (McpRepl_new\<lparr>transport := Some (SSEClientTransport ''http://localhost:3000/sse'' None)\<rparr>)
            ''http://localhost:3000/mcp'' (Some ''key''))
       = Threw ECONNREFUSED
   \<and> fst (snd (connectHTTP server_down
            (McpRepl_new\<lparr>transport := Some (SSEClientTransport ''http://localhost:3000/sse'' None)\<rparr>)
            ''http://localhost:3000/mcp'' (Some ''key'')))
       = McpRepl_new\<lparr>transport :=
           Some (StreamableHTTPClientTransport ''http://localhost:3000/mcp'' (Some [(''x-api-key'', ''key'')]))\<rparr>
   \<and> Disconnected (fst (snd (connectHTTP server_down
            (McpRepl_new\<lparr>transport := Some (SSEClientTransport ''http://localhost:3000/sse'' None)\<rparr>)
            ''http://localhost:3000/mcp'' (Some ''key''))))"
proof -
  let ?s = "McpRepl_new\<lparr>transport := Some (SSEClientTransport ''http://localhost:3000/sse'' None)\<rparr>"
  let ?r = "connectHTTP server_down ?s ''http://localhost:3000/mcp'' (Some ''key'')"
  have a: "Disconnected ?s"
    by (simp add: Disconnected_def McpRepl_new_def)
  have h: "fst ?r = Threw ECONNREFUSED"
    by (simp add: connect_defs server_down_def server_up_def format_ECONNREFUSED)
  have d: "?r = connectScript server_down ?s [] \<or>
           ?r = connectSSE server_down ?s ''http://localhost:3000/mcp'' (Some ''key'') \<or>
           ?r = connectHTTP server_down ?s ''http://localhost:3000/mcp'' (Some ''key'')"
    by simp
  have v: "fst (snd ?r) = McpRepl_new\<lparr>transport :=
           Some (StreamableHTTPClientTransport ''http://localhost:3000/mcp'' (Some [(''x-api-key'', ''key'')]))\<rparr>"
    by (simp add: connect_defs server_down_def server_up_def format_ECONNREFUSED McpRepl_new_def)
  from failed_connect_stays_disconnected [OF a d h] a h v show ?thesis
    by simp
qed

subsection \<open>Calling a tool\<close>




subsection \<open>Disconnecting twice\<close>

text \<open>
  C8. Let the client's \<^verbatim>\<open>close\<close> not reject, should the session be connected. Then
  \<^verbatim>\<open>disconnect\<close> returns, and a second \<^verbatim>\<open>disconnect\<close>, whatever the environment would
  answer, returns as well, makes no request, leaves every field as the first left it, and
  only prints its line. A session that is already disconnected needs no assumption.
\<close>

theorem disconnect_idempotent:
  assumes "connected s \<longrightarrow> close_error w = None"
  shows "\<exists>s1 evs. disconnect w s = (Returned JUndefined, s1, evs)
           \<and> disconnect w' s1 = (Returned JUndefined, s1, [console_log ''Disconnected from null'', new_Client])"
  using assms by (simp add: disconnect_def)

theorem disconnect_idempotent_witness:
  "disconnect server_up connected_to_a =
     (Returned JUndefined, McpRepl_new,
      [mcp_close, console_log ''Disconnected from http://a.example/sse'', new_Client])
   \<and> disconnect server_down McpRepl_new =
     (Returned JUndefined, McpRepl_new, [console_log ''Disconnected from null'', new_Client])"
proof -
  have h: "connected connected_to_a \<longrightarrow> close_error server_up = None"
    by (simp add: server_up_def)
  have first: "disconnect server_up connected_to_a =
     (Returned JUndefined, McpRepl_new,
      [mcp_close, console_log ''Disconnected from http://a.example/sse'', new_Client])"
    by (simp add: disconnect_def connected_to_a_def server_up_def McpRepl_new_def)
  from disconnect_idempotent [OF h, of server_down] first show ?thesis
    by simp
qed

subsection \<open>Shell mode for a local process\<close>

lemma String_startsWith_iff: "String_startsWith s t \<longleftrightarrow> (\<exists>r. s = t @ r)"
  by (induction s t rule: String_startsWith.induct) auto

lemma String_includes_iff: "String_includes s t \<longleftrightarrow> (\<exists>a b. s = a @ t @ b)"
proof (induction s)
  case Nil
  then show ?case by simp
next
  case (Cons x xs)
  show ?case
  proof
    assume "String_includes (x # xs) t"
    then consider "String_startsWith (x # xs) t" | "String_includes xs t"
      by auto
    then show "\<exists>a b. x # xs = a @ t @ b"
    proof cases
      case 1
      then obtain r where "x # xs = t @ r"
        by (auto simp only: String_startsWith_iff)
      then have "x # xs = [] @ t @ r" by simp
      then show ?thesis by blast
    next
      case 2
      with Cons obtain a b where "xs = a @ t @ b" by blast
      then have "x # xs = (x # a) @ t @ b" by simp
      then show ?thesis by blast
    qed
  next
    assume "\<exists>a b. x # xs = a @ t @ b"
    then obtain a b where ab: "x # xs = a @ t @ b" by blast
    show "String_includes (x # xs) t"
    proof (cases a)
      case Nil
      with ab have "String_startsWith (x # xs) t"
        by (auto simp only: String_startsWith_iff append_Nil)
      then show ?thesis by simp
    next
      case (Cons y ys)
      with ab have "xs = ys @ t @ b" by simp
      then have "String_includes xs t"
        using Cons.IH by blast
      then show ?thesis by simp
    qed
  qed
qed

lemma includes_cd_space: "String_includes s ''cd '' \<Longrightarrow> String_includes s '' ''"
proof -
  assume "String_includes s ''cd ''"
  then obtain a b where "s = a @ ''cd '' @ b"
    by (auto simp only: String_includes_iff)
  then have "s = (a @ ''cd'') @ '' '' @ b" by simp
  then show ?thesis
    by (auto simp only: String_includes_iff)
qed

lemma startsWith_npx_space: "String_startsWith s ''npx '' \<Longrightarrow> String_includes s '' ''"
proof -
  assume "String_startsWith s ''npx ''"
  then obtain r where "s = ''npx '' @ r"
    by (auto simp only: String_startsWith_iff)
  then have "s = ''npx'' @ '' '' @ r" by simp
  then show ?thesis
    by (auto simp only: String_includes_iff)
qed

text \<open>
  C9, as stated: shell mode is chosen exactly when the target holds a shell metacharacter,
  starts with an interpreter token or holds white space. It is not: a pipe is a shell
  metacharacter, yet \<^verbatim>\<open>server.js|tee\<close> is handed to Node as one argument.
\<close>

theorem shell_mode_metacharacter_counterexample:
  "spec_shell_mode ''server.js|tee''
   \<and> \<not> isShellCommand ''server.js|tee''
   \<and> stdio_transport server_up ''server.js|tee'' = StdioClientTransport ''/usr/bin/node'' [''server.js|tee'']"
  by (simp add: spec_shell_mode_def shell_metacharacters_def isShellCommand_def stdio_transport_def
      server_up_def)

text \<open>
  C9, amended. The target is run as \<^verbatim>\<open>/bin/bash -c <target>\<close> exactly when it contains
  \<^verbatim>\<open>&&\<close> or a space character, which is what the four tests of the code (contains \<^verbatim>\<open>&&\<close>,
  contains \<^verbatim>\<open>cd \<close>, starts with \<^verbatim>\<open>npx \<close>, contains a space) come to; otherwise it is the
  single argument of the Node executable. That transport is the one \<^verbatim>\<open>connectScript\<close>
  connects.
\<close>

theorem shell_mode_condition:
  "(isShellCommand scriptPath \<longleftrightarrow>
      String_includes scriptPath ''&&'' \<or> String_includes scriptPath '' '')
   \<and> stdio_transport w scriptPath =
       (if String_includes scriptPath ''&&'' \<or> String_includes scriptPath '' ''
        then StdioClientTransport ''/bin/bash'' [''-c'', scriptPath]
        else StdioClientTransport (execPath w) [scriptPath])
   \<and> mcp_connect (stdio_transport w scriptPath) \<in> set (snd (snd (connectScript w s scriptPath)))"
proof -
  have iff: "isShellCommand scriptPath \<longleftrightarrow>
      String_includes scriptPath ''&&'' \<or> String_includes scriptPath '' ''"
    unfolding isShellCommand_def using includes_cd_space startsWith_npx_space by blast
  have sent: "mcp_connect (stdio_transport w scriptPath) \<in> set (snd (snd (connectScript w s scriptPath)))"
    by (simp add: connectScript_def attach_def rethrow_def Let_def split: option.split sum.split)
  from iff sent show ?thesis
    by (simp add: stdio_transport_def)
qed

theorem shell_mode_condition_witness:
  "stdio_transport server_up ''cd /srv && node server.js'' =
     StdioClientTransport ''/bin/bash'' [''-c'', ''cd /srv && node server.js'']
   \<and> stdio_transport server_up ''build/index.js'' = StdioClientTransport ''/usr/bin/node'' [''build/index.js'']
   \<and> stdio_transport server_up ''a;b'' = StdioClientTransport ''/usr/bin/node'' [''a;b'']"
  using shell_mode_condition [of "''cd /srv && node server.js''" server_up McpRepl_new]
    shell_mode_condition [of "''build/index.js''" server_up McpRepl_new]
    shell_mode_condition [of "''a;b''" server_up McpRepl_new]
  by (simp add: server_up_def)

subsection \<open>Showing a tool with an empty catalog\<close>

text \<open>
  C10, as stated: with an empty catalog the not-found line is printed only against a
  freshly loaded catalog. It is not: \<^verbatim>\<open>listTools\<close> catches its own failure, so when the
  listing fails \<^verbatim>\<open>showTool\<close> goes on to look the name up in the catalog that is still
  empty, and prints the not-found line after the failure.
\<close>

theorem showTool_reports_after_failed_reload_counterexample:
  "showTool listing_fails (connected_to_a\<lparr>tools := []\<rparr>) ''get_weather'' =
     (Returned JUndefined, connected_to_a\<lparr>tools := []\<rparr>,
      [mcp_listTools,
       console_error ''Failed to list tools:\<newline>Error: Request timed out\<newline>'',
       console_log ''Tool get_weather not found.''])
   \<and> listTools_result listing_fails = Inl (JObj ErrorProto [(''message'', JStr ''Request timed out'')])"
  by (simp add: showTool_def listTools_def listing_fails_def server_up_def connected_to_a_def
      formatMcpError_def errorCode_of_def originalMessage_def)

lemma listTools_requests:
  "connected s \<Longrightarrow> \<exists>rest. snd (snd (listTools w s full)) = mcp_listTools # rest \<and> filter is_request rest = []"
  by (auto simp: listTools_def filter_empty_conv split: sum.splits)

lemma listTools_loaded:
  assumes "connected s" and "listTools_result w = Inr ts"
  shows "fst (listTools w s full) = Returned JUndefined"
    and "fst (snd (listTools w s full)) = s\<lparr>tools := ts\<rparr>"
    and "console_log (''Tool '' @ toolName @ '' not found.'') \<notin> set (snd (snd (listTools w s False)))"
  using assms by (auto simp: listTools_def tool_line_def)

text \<open>
  C10, amended. In a connected session with an empty catalog \<^verbatim>\<open>showTool\<close> begins with a
  \<^verbatim>\<open>listTools\<close> request and makes no other. When that request succeeds, the catalog becomes
  the list the server returned, and the not-found line is printed exactly when the name is
  not in that list.
\<close>

theorem showTool_loads_first:
  assumes "connected s" and "tools s = []"
  shows "hd (snd (snd (showTool w s toolName))) = mcp_listTools
       \<and> filter is_request (snd (snd (showTool w s toolName))) = [mcp_listTools]
       \<and> (\<forall>ts. listTools_result w = Inr ts \<longrightarrow>
            fst (showTool w s toolName) = Returned JUndefined
            \<and> tools (fst (snd (showTool w s toolName))) = ts
            \<and> (console_log (''Tool '' @ toolName @ '' not found.'') \<in> set (snd (snd (showTool w s toolName)))
                 \<longleftrightarrow> toolName \<notin> tool_name ` set ts))"
proof -
  obtain rest where rest: "snd (snd (listTools w s False)) = mcp_listTools # rest"
      "filter is_request rest = []"
    using listTools_requests [OF assms(1)] by blast
  have first: "hd (snd (snd (showTool w s toolName))) = mcp_listTools
       \<and> filter is_request (snd (snd (showTool w s toolName))) = [mcp_listTools]"
    using assms rest by (simp add: showTool_def Let_def split: outcome.split sum.split option.split)
  have loaded: "fst (showTool w s toolName) = Returned JUndefined
            \<and> tools (fst (snd (showTool w s toolName))) = ts
            \<and> (console_log (''Tool '' @ toolName @ '' not found.'') \<in> set (snd (snd (showTool w s toolName)))
                 \<longleftrightarrow> toolName \<notin> tool_name ` set ts)"
    if ok: "listTools_result w = Inr ts" for ts
  proof (cases "find (\<lambda>t. tool_name t = toolName) ts")
    case None
    then have "toolName \<notin> tool_name ` set ts"
      by (auto simp: find_None_iff)
    with None assms listTools_loaded [OF assms(1) ok] show ?thesis
      by (simp add: showTool_def Let_def)
  next
    case (Some t)
    then have "toolName \<in> tool_name ` set ts"
      by (auto simp: find_Some_iff)
    with Some assms listTools_loaded [OF assms(1) ok] show ?thesis
      by (simp add: showTool_def Let_def)
  qed
  from first loaded show ?thesis
    by blast
qed

theorem showTool_loads_first_witness:
  "showTool server_up (connected_to_a\<lparr>tools := []\<rparr>) ''get_time'' =
     (Returned JUndefined, connected_to_a,
      [mcp_listTools, console_log ''Available tools:'',
       console_log ''- get_weather: Get current weather information for a location'',
       console_log ''Tool get_time not found.''])
   \<and> hd (snd (snd (showTool server_up (connected_to_a\<lparr>tools := []\<rparr>) ''get_time''))) = mcp_listTools
   \<and> ''get_time'' \<notin> tool_name ` set [get_weather]"
proof -
  let ?s = "connected_to_a\<lparr>tools := []\<rparr>"
  have c: "connected ?s" and e: "tools ?s = []"
    by (simp_all add: connected_to_a_def)
  have ev: "showTool server_up ?s ''get_time'' =
     (Returned JUndefined, connected_to_a,
      [mcp_listTools, console_log ''Available tools:'',
       console_log ''- get_weather: Get current weather information for a location'',
       console_log ''Tool get_time not found.''])"
    by (simp add: showTool_def listTools_def server_up_def connected_to_a_def get_weather_def
        tool_line_def)
  have n: "''get_time'' \<notin> tool_name ` set [get_weather]"
    by (simp add: get_weather_def)
  from showTool_loads_first [OF c e, of server_up "''get_time''"] ev n show ?thesis
    by simp
qed

end
